theory Spec2Isabelle
  imports Complex_Main "HOL-Library.Char_ord" "HOL-Library.List_Lexorder"
    "HOL-Library.Product_Lexorder" "HOL-Library.Multiset"
begin

section \<open>Values\<close>

text \<open>
  The ratio calculators of \<^verbatim>\<open>app.py\<close> receive Python scalars: \<^verbatim>\<open>None\<close> (the marker for
  an unavailable value), a float, or the float \<^verbatim>\<open>nan\<close>. Finite floats are read as real
  numbers, so rounding and overflow to infinity are outside this model.
\<close>

datatype pyval = PyNone | Num real | NaN

datatype py_error = TypeError | ValueError | ZeroDivisionError

text \<open>Python's truth value: \<^verbatim>\<open>None\<close> and zero are false, every other number (also
  \<^verbatim>\<open>nan\<close>) is true.\<close>

fun truthy :: "pyval \<Rightarrow> bool" where
  "truthy PyNone = False"
| "truthy (Num x) = (x \<noteq> 0)"
| "truthy NaN = True"

text \<open>\<^verbatim>\<open>a or b\<close>\<close>

definition py_or :: "pyval \<Rightarrow> pyval \<Rightarrow> pyval" where
  "py_or a b = (if truthy a then a else b)"

text \<open>Arithmetic raises \<^verbatim>\<open>TypeError\<close> on \<^verbatim>\<open>None\<close> and propagates \<^verbatim>\<open>nan\<close>.\<close>

fun py_add :: "pyval \<Rightarrow> pyval \<Rightarrow> py_error + pyval" where
  "py_add PyNone _ = Inl TypeError"
| "py_add _ PyNone = Inl TypeError"
| "py_add (Num x) (Num y) = Inr (Num (x + y))"
| "py_add _ _ = Inr NaN"

fun py_sub :: "pyval \<Rightarrow> pyval \<Rightarrow> py_error + pyval" where
  "py_sub PyNone _ = Inl TypeError"
| "py_sub _ PyNone = Inl TypeError"
| "py_sub (Num x) (Num y) = Inr (Num (x - y))"
| "py_sub _ _ = Inr NaN"

fun py_mul :: "pyval \<Rightarrow> pyval \<Rightarrow> py_error + pyval" where
  "py_mul PyNone _ = Inl TypeError"
| "py_mul _ PyNone = Inl TypeError"
| "py_mul (Num x) (Num y) = Inr (Num (x * y))"
| "py_mul _ _ = Inr NaN"

text \<open>Every division of the source is guarded by the truth value of its divisor, so the
  \<^verbatim>\<open>ZeroDivisionError\<close> branch is never reached from the functions below.\<close>

fun py_div :: "pyval \<Rightarrow> pyval \<Rightarrow> py_error + pyval" where
  "py_div PyNone _ = Inl TypeError"
| "py_div _ PyNone = Inl TypeError"
| "py_div (Num x) (Num y) = (if y = 0 then Inl ZeroDivisionError else Inr (Num (x / y)))"
| "py_div NaN (Num y) = (if y = 0 then Inl ZeroDivisionError else Inr NaN)"
| "py_div _ NaN = Inr NaN"

text \<open>Sequencing of operations that may raise: the first exception ends the evaluation.\<close>

definition and_then :: "py_error + 'a \<Rightarrow> ('a \<Rightarrow> py_error + 'b) \<Rightarrow> py_error + 'b" where
  "and_then m f = (case m of Inl e \<Rightarrow> Inl e | Inr v \<Rightarrow> f v)"

section \<open>Ratio calculators\<close>

text \<open>\<^verbatim>\<open>def calc_kd(interest, debt): return interest / debt if debt else 0\<close>\<close>

definition calc_kd :: "pyval \<Rightarrow> pyval \<Rightarrow> py_error + pyval" where
  "calc_kd interest debt = (if truthy debt then py_div interest debt else Inr (Num 0))"

text \<open>
  \<^verbatim>\<open>def calc_wacc(mcap, debt, ke, kd, t):
      total = (mcap or 0) + (debt or 0)
      return (mcap/total)*ke + (debt/total)*kd*(1-t) if total else None\<close>
  The operands are evaluated left to right.
\<close>

definition calc_wacc :: "pyval \<Rightarrow> pyval \<Rightarrow> pyval \<Rightarrow> pyval \<Rightarrow> pyval \<Rightarrow> py_error + pyval" where
  "calc_wacc mcap debt ke kd t =
     and_then (py_add (py_or mcap (Num 0)) (py_or debt (Num 0))) (\<lambda>total.
       if truthy total then
         and_then (py_div mcap total) (\<lambda>we.
         and_then (py_mul we ke) (\<lambda>equity_part.
         and_then (py_div debt total) (\<lambda>wd.
         and_then (py_mul wd kd) (\<lambda>wd_kd.
         and_then (py_sub (Num 1) t) (\<lambda>shield.
         and_then (py_mul wd_kd shield) (\<lambda>debt_part.
         py_add equity_part debt_part))))))
       else Inr PyNone)"

text \<open>Line 165 of \<^verbatim>\<open>obtener_datos_financieros\<close>:
  \<^verbatim>\<open>tax = tax_exp / ebt if ebt else Tc_def\<close>\<close>

definition tax :: "pyval \<Rightarrow> pyval \<Rightarrow> pyval \<Rightarrow> py_error + pyval" where
  "tax tax_exp ebt Tc_def = (if truthy ebt then py_div tax_exp ebt else Inr Tc_def)"

text \<open>Line 174 of \<^verbatim>\<open>obtener_datos_financieros\<close>:
  \<^verbatim>\<open>creacion_valor = (roic - wacc) * 100 if all(v is not None for v in (roic, wacc)) else None\<close>\<close>

definition creacion_valor :: "pyval \<Rightarrow> pyval \<Rightarrow> py_error + pyval" where
  "creacion_valor roic wacc =
     (if roic \<noteq> PyNone \<and> wacc \<noteq> PyNone
      then and_then (py_sub roic wacc) (\<lambda>d. py_mul d (Num 100))
      else Inr PyNone)"

section \<open>Statement tables\<close>

text \<open>
  A row of a statement (a pandas \<^verbatim>\<open>Series\<close>) is the list of its entries, most recent
  period first; \<open>None\<close> is a missing entry (\<^verbatim>\<open>NaN\<close>). A statement table (a
  \<^verbatim>\<open>DataFrame\<close>) has its period labels and a row for each line-item name of its index.
\<close>

type_synonym series = "real option list"

record table =
  columns :: "string list"
  rows :: "string \<rightharpoonup> series"

text \<open>What \<^verbatim>\<open>safe_first\<close> receives and returns: a scalar or a row.\<close>

datatype pyobj = Scalar pyval | Series series

text \<open>\<^verbatim>\<open>Series.dropna()\<close> keeps the entries that are not missing, in order.\<close>

definition dropna :: "series \<Rightarrow> series" where
  "dropna s = filter (\<lambda>c. c \<noteq> None) s"

text \<open>Reading one entry of a row as a scalar.\<close>

fun cell_val :: "real option \<Rightarrow> pyval" where
  "cell_val (Some x) = Num x"
| "cell_val None = NaN"

text \<open>
  \<^verbatim>\<open>def safe_first(obj):
      if obj is None: return None
      if hasattr(obj, "dropna"): obj = obj.dropna()
      return obj.iloc[0] if hasattr(obj, "iloc") and not obj.empty else obj\<close>
  A scalar has neither \<^verbatim>\<open>dropna\<close> nor \<^verbatim>\<open>iloc\<close>.
\<close>

fun safe_first :: "pyobj \<Rightarrow> pyobj" where
  "safe_first (Scalar v) = Scalar v"
| "safe_first (Series s) =
     (let obj = dropna s in if obj \<noteq> [] then Scalar (cell_val (hd obj)) else Series obj)"

text \<open>
  \<^verbatim>\<open>def seek_row(df, keys):
      for k in keys:
          if k in df.index: return df.loc[k]
      return pd.Series([0], index=df.columns[:1])\<close>
  The fallback row holds the one value 0 under the first period label; pandas raises
  \<^verbatim>\<open>ValueError\<close> when the labels \<^verbatim>\<open>df.columns[:1]\<close> are fewer than the values, that is when
  the table has no period at all.
\<close>

fun seek_row :: "table \<Rightarrow> string list \<Rightarrow> py_error + series" where
  "seek_row df [] = (if columns df = [] then Inl ValueError else Inr [Some 0])"
| "seek_row df (k # keys) =
     (case rows df k of Some r \<Rightarrow> Inr r | None \<Rightarrow> seek_row df keys)"

text \<open>
  \<^verbatim>\<open>x ** (1/k)\<close> on floats, for the exponents that \<^verbatim>\<open>cagr4\<close> forms: \<^verbatim>\<open>1/0\<close> raises,
  \<^verbatim>\<open>x ** 1.0\<close> is \<^verbatim>\<open>x\<close>, and a negative base under a fractional exponent is \<^verbatim>\<open>nan\<close>
  (the entries of a numeric row are \<^verbatim>\<open>float64\<close>).
\<close>

fun pow_inv :: "pyval \<Rightarrow> nat \<Rightarrow> py_error + pyval" where
  "pow_inv _ 0 = Inl ZeroDivisionError"
| "pow_inv PyNone _ = Inl TypeError"
| "pow_inv NaN _ = Inr NaN"
| "pow_inv (Num x) k =
     Inr (if k = 1 then Num x else if x < 0 then NaN else Num (x powr (1 / real k)))"

text \<open>
  \<^verbatim>\<open>def cagr4(fin, metric):
      if metric not in fin.index: return None
      v = fin.loc[metric].dropna().iloc[:4]
      return (v.iloc[0]/v.iloc[-1])**(1/(len(v)-1))-1 if len(v)>1 and v.iloc[-1] else None\<close>
\<close>

definition cagr4 :: "table \<Rightarrow> string \<Rightarrow> py_error + pyval" where
  "cagr4 fin metric =
     (case rows fin metric of
        None \<Rightarrow> Inr PyNone
      | Some r \<Rightarrow>
          (let v = take 4 (dropna r) in
           if length v > 1 \<and> truthy (cell_val (last v)) then
             and_then (py_div (cell_val (hd v)) (cell_val (last v))) (\<lambda>q.
             and_then (pow_inv q (length v - 1)) (\<lambda>p.
             py_sub p (Num 1)))
           else Inr PyNone))"

section \<open>Company records and the batch\<close>

definition SECTOR_RANK :: "(string \<times> int) list" where
  "SECTOR_RANK =
     [(''Consumer Defensive'', 1), (''Consumer Cyclical'', 2), (''Healthcare'', 3),
      (''Technology'', 4), (''Financial Services'', 5), (''Industrials'', 6),
      (''Communication Services'', 7), (''Energy'', 8), (''Real Estate'', 9),
      (''Utilities'', 10), (''Basic Materials'', 11), (''Unknown'', 99)]"

text \<open>The fields of the metrics dictionary that the batch and the value diagnostic use.\<close>

record company =
  Ticker :: string
  Sector :: string
  WACC :: pyval
  ROIC :: pyval
  Creacion_Valor :: pyval

text \<open>\<^verbatim>\<open>df["SectorRank"] = df["Sector"].map(SECTOR_RANK).fillna(99).astype(int)\<close>\<close>

definition SectorRank :: "company \<Rightarrow> int" where
  "SectorRank c = (case map_of SECTOR_RANK (Sector c) of Some r \<Rightarrow> r | None \<Rightarrow> 99)"

text \<open>\<^verbatim>\<open>df = df.sort_values(["SectorRank", "Sector", "Ticker"])\<close>: ascending in the three
  columns, lexicographically; strings compare character by character.\<close>

definition sort_values :: "company list \<Rightarrow> company list" where
  "sort_values df = sort_key (\<lambda>c. (SectorRank c, Sector c, Ticker c)) df"

text \<open>
  \<^verbatim>\<open>obtener_datos_financieros(tk, Tc_def)\<close> is one \<^verbatim>\<open>try\<close> block whose handler
  (lines 228 to 230) shows the error with \<^verbatim>\<open>st.error\<close> and returns \<^verbatim>\<open>None\<close>. The block
  up to the two ratios (lines 140 to 171: the download and the derivations) is the
  parameter \<open>derive\<close>: it delivers the sector, WACC and ROIC of the ticker, or raises.
  The result pairs the returned value with the messages shown.
\<close>

definition obtener_datos_financieros ::
  "(string \<Rightarrow> py_error + string \<times> pyval \<times> pyval) \<Rightarrow> string
     \<Rightarrow> py_error + company option \<times> (string \<times> py_error) list" where
  "obtener_datos_financieros derive tk =
     (case and_then (derive tk) (\<lambda>(sector, wacc, roic).
             and_then (creacion_valor roic wacc) (\<lambda>cv.
               Inr \<lparr>Ticker = tk, Sector = sector, WACC = wacc, ROIC = roic,
                    Creacion_Valor = cv\<rparr>)) of
        Inr d \<Rightarrow> Inr (Some d, [])
      | Inl e \<Rightarrow> Inr (None, [(tk, e)]))"

text \<open>The state of the loop of \<^verbatim>\<open>main\<close>: the records built, the recorded errors
  (\<^verbatim>\<open>errs\<close>) and the messages shown by \<^verbatim>\<open>st.error\<close>.\<close>

record run =
  datos :: "company list"
  errs :: "(string \<times> py_error) list"
  shown :: "(string \<times> py_error) list"

text \<open>
  \<^verbatim>\<open>try:
      data = obtener_datos_financieros(tk, Tc0)
      if data: datos.append(data)
  except Exception as e:
      errs.append({"Ticker": tk, "Error": str(e)})\<close>
\<close>

definition main_step ::
  "(string \<Rightarrow> py_error + string \<times> pyval \<times> pyval) \<Rightarrow> run \<Rightarrow> string \<Rightarrow> run" where
  "main_step derive st tk =
     (case obtener_datos_financieros derive tk of
        Inr (data, msgs) \<Rightarrow>
          st\<lparr>datos := datos st @ (case data of Some d \<Rightarrow> [d] | None \<Rightarrow> []),
              shown := shown st @ msgs\<rparr>
      | Inl e \<Rightarrow> st\<lparr>errs := errs st @ [(tk, e)]\<rparr>)"

definition main_loop ::
  "(string \<Rightarrow> py_error + string \<times> pyval \<times> pyval) \<Rightarrow> string list \<Rightarrow> run" where
  "main_loop derive tickers =
     foldl (main_step derive) \<lparr>datos = [], errs = [], shown = []\<rparr> tickers"

text \<open>After the loop \<^verbatim>\<open>main\<close> stops when no record was built, and sorts the records
  otherwise.\<close>

datatype outcome =
  NoData "(string \<times> py_error) list"
| Portfolio "company list" "(string \<times> py_error) list"

definition main :: "(string \<Rightarrow> py_error + string \<times> pyval \<times> pyval) \<Rightarrow> string list \<Rightarrow> outcome" where
  "main derive tickers =
     (let st = main_loop derive tickers in
      if datos st = [] then NoData (errs st) else Portfolio (sort_values (datos st)) (errs st))"

section \<open>Cost of debt, tax rate and value-creation spread\<close>

text \<open>
  Claim C4. Whatever the interest expense is, \<^verbatim>\<open>calc_kd\<close> returns 0 when total debt is
  zero: neither the unavailable marker nor an exception. When total debt is a nonzero
  number it returns the quotient of interest expense and total debt.
\<close>

theorem calc_kd_zero_debt_and_quotient:
  "calc_kd interest (Num 0) = Inr (Num 0) \<and>
   (d \<noteq> 0 \<longrightarrow> calc_kd (Num i) (Num d) = Inr (Num (i / d)))"
  by (simp add: calc_kd_def)

theorem calc_kd_zero_debt_and_quotient_witness:
  "calc_kd PyNone (Num 0) = Inr (Num 0) \<and> (100::real) \<noteq> 0 \<and>
   calc_kd (Num 5) (Num 100) = Inr (Num (1 / 20))"
  using calc_kd_zero_debt_and_quotient [of PyNone 100 5] by simp

text \<open>
  Claim C6. The effective tax rate is the quotient of income tax expense and earnings
  before tax when the latter is a nonzero number; when earnings before tax is zero it
  is the default rate passed by the caller, whatever the tax expense is, and no
  quotient is formed.
\<close>

theorem tax_quotient_or_default:
  "tax tax_exp (Num 0) Tc_def = Inr Tc_def \<and>
   (ebt \<noteq> 0 \<longrightarrow> tax (Num x) (Num ebt) Tc_def = Inr (Num (x / ebt)))"
  by (simp add: tax_def)

theorem tax_quotient_or_default_witness:
  "tax (Num 7) (Num 0) (Num (21 / 100)) = Inr (Num (21 / 100)) \<and> (50::real) \<noteq> 0 \<and>
   tax (Num 10) (Num 50) (Num (21 / 100)) = Inr (Num (1 / 5))"
  using tax_quotient_or_default [of "Num 7" "Num (21 / 100)" 50 10] by simp

text \<open>
  Claim C1. The value-creation spread is available (not \<^verbatim>\<open>None\<close>) exactly when ROIC
  and WACC are both available; computing it never raises; and for available numbers
  it is \<open>(ROIC - WACC) * 100\<close>.
\<close>

theorem creacion_valor_available_iff:
  "(creacion_valor roic wacc \<noteq> Inr PyNone \<longleftrightarrow> roic \<noteq> PyNone \<and> wacc \<noteq> PyNone) \<and>
   (\<exists>v. creacion_valor roic wacc = Inr v) \<and>
   creacion_valor (Num r) (Num w) = Inr (Num ((r - w) * 100))"
  by (cases roic; cases wacc) (simp_all add: creacion_valor_def and_then_def)

theorem creacion_valor_available_iff_witness:
  "creacion_valor (Num (3 / 20)) (Num (1 / 10)) = Inr (Num 5) \<and>
   creacion_valor (Num (3 / 20)) (Num (1 / 10)) \<noteq> Inr PyNone \<and>
   creacion_valor PyNone (Num (1 / 10)) = Inr PyNone"
  using creacion_valor_available_iff [of "Num (3 / 20)" "Num (1 / 10)" "3 / 20" "1 / 10"]
    creacion_valor_available_iff [of PyNone "Num (1 / 10)" 0 0]
  by simp

section \<open>WACC\<close>

text \<open>
  Claim C10. When exactly one of market capitalisation and debt is \<^verbatim>\<open>None\<close> and the
  other is a nonzero number, the total capital is nonzero and \<^verbatim>\<open>calc_wacc\<close> raises
  \<^verbatim>\<open>TypeError\<close>, whatever the other three arguments are: it returns neither a number nor
  the unavailable marker.
\<close>

theorem calc_wacc_one_missing_raises:
  "(d \<noteq> 0 \<longrightarrow> calc_wacc PyNone (Num d) ke kd t = Inl TypeError) \<and>
   (m \<noteq> 0 \<longrightarrow> calc_wacc (Num m) PyNone ke kd t = Inl TypeError)"
  by (cases ke) (simp_all add: calc_wacc_def and_then_def py_or_def)

theorem calc_wacc_one_missing_raises_witness:
  "(3::real) \<noteq> 0 \<and> (7::real) \<noteq> 0 \<and>
   calc_wacc PyNone (Num 3) (Num (2 / 25)) (Num (1 / 20)) (Num (21 / 100)) = Inl TypeError \<and>
   calc_wacc (Num 7) PyNone (Num (2 / 25)) (Num (1 / 20)) (Num (21 / 100)) = Inl TypeError"
  using calc_wacc_one_missing_raises
    [of 3 "Num (2 / 25)" "Num (1 / 20)" "Num (21 / 100)" 7]
  by simp

text \<open>
  Claim C5 promises the weighted formula whenever equity and debt are not both zero or
  unavailable. With equity missing and debt 5 the total capital is 5, since line 72
  counts the missing equity as 0 (\<^verbatim>\<open>mcap or 0\<close>); line 73 then divides the raw
  \<^verbatim>\<open>mcap\<close> by the total and the call raises \<^verbatim>\<open>TypeError\<close>, where the formula with
  equity 0 would give \<open>kd * (1 - t)\<close>. The same happens with debt missing and equity
  nonzero.
\<close>

theorem calc_wacc_missing_equity_raises:
  "calc_wacc PyNone (Num 5) (Num (1 / 10)) (Num (1 / 20)) (Num (1 / 5)) = Inl TypeError \<and>
   calc_wacc (Num 5) PyNone (Num (1 / 10)) (Num (1 / 20)) (Num (1 / 5)) = Inl TypeError"
  by (simp add: calc_wacc_def and_then_def py_or_def)

text \<open>
  The parts of the contract that the code keeps: the unavailable marker when the total
  capital is zero, a missing equity or debt counting as 0 (so when both are zero or
  missing, and when two numbers cancel), and the weighted formula when equity \<open>e\<close> and
  debt \<open>d\<close> are numbers with \<open>e + d \<noteq> 0\<close>.
\<close>

lemma calc_wacc_total_capital:
  "(\<not> truthy mcap \<and> \<not> truthy debt \<longrightarrow> calc_wacc mcap debt ke kd t = Inr PyNone) \<and>
   (e + d = 0 \<longrightarrow> calc_wacc (Num e) (Num d) ke kd t = Inr PyNone) \<and>
   (e + d \<noteq> 0 \<longrightarrow>
      calc_wacc (Num e) (Num d) (Num ke') (Num kd') (Num t')
        = Inr (Num ((e / (e + d)) * ke' + (d / (e + d)) * kd' * (1 - t'))))"
  by (simp add: calc_wacc_def and_then_def py_or_def)

lemma calc_wacc_total_capital_examples:
  "calc_wacc PyNone (Num 0) (Num (1 / 10)) (Num (1 / 20)) (Num (1 / 5)) = Inr PyNone \<and>
   calc_wacc (Num 5) (Num (- 5)) (Num (1 / 10)) (Num (1 / 20)) (Num (1 / 5)) = Inr PyNone \<and>
   calc_wacc (Num 60) (Num 40) (Num (1 / 10)) (Num (1 / 20)) (Num (1 / 5)) = Inr (Num (19 / 250))"
  using calc_wacc_total_capital
      [of PyNone "Num 0" "Num (1 / 10)" "Num (1 / 20)" "Num (1 / 5)" 5 "- 5" "1 / 10" "1 / 20" "1 / 5"]
    calc_wacc_total_capital
      [of PyNone "Num 0" "Num (1 / 10)" "Num (1 / 20)" "Num (1 / 5)" 60 40 "1 / 10" "1 / 20" "1 / 5"]
  by simp

section \<open>Rows: scalar extraction and field resolution\<close>

text \<open>
  Claim C7 says that a row with no entry left after dropping the missing ones gives the
  unavailable marker. At the row of two missing entries \<^verbatim>\<open>safe_first\<close> returns the
  emptied row itself: the condition \<^verbatim>\<open>not obj.empty\<close> fails and the \<^verbatim>\<open>else\<close> branch
  hands \<^verbatim>\<open>obj\<close> back.
\<close>

theorem safe_first_all_missing_returns_row:
  "safe_first (Series [None, None]) = Series [] \<and>
   safe_first (Series [None, None]) \<noteq> Scalar PyNone"
  by (simp add: dropna_def)

text \<open>The parts of the contract that the code keeps: the first entry that is not missing,
  and scalars handed through.\<close>

lemma safe_first_first_present:
  "safe_first (Series (replicate n None @ Some x # rest)) = Scalar (Num x)"
  by (simp add: dropna_def)

lemma safe_first_scalar: "safe_first (Scalar v) = Scalar v"
  by simp

text \<open>
  Claim C8 says that \<^verbatim>\<open>seek_row\<close> never raises. On a statement with no period column and
  none of the candidate names, building the fallback row raises \<^verbatim>\<open>ValueError\<close>.
\<close>

theorem seek_row_no_period_raises:
  "seek_row \<lparr>columns = [], rows = Map.empty\<rparr> [''A'', ''B''] = Inl ValueError"
  by simp

text \<open>The parts of the contract that the code keeps: the first candidate present wins, and
  a table with a period column yields the one-entry zero row when no candidate is
  present.\<close>

lemma seek_row_first_present:
  "\<forall>k \<in> set skipped. rows df k = None \<Longrightarrow> rows df k' = Some r \<Longrightarrow>
   seek_row df (skipped @ k' # later) = Inr r"
  by (induction skipped) simp_all

lemma seek_row_none_present:
  "\<forall>k \<in> set keys. rows df k = None \<Longrightarrow> columns df \<noteq> [] \<Longrightarrow> seek_row df keys = Inr [Some 0]"
  by (induction keys) simp_all

lemma seek_row_only_B:
  "seek_row \<lparr>columns = [''2024'', ''2023''], rows = [''B'' \<mapsto> [Some 7, None]]\<rparr> [''A'', ''B'']
     = Inr [Some 7, None]"
  by simp

section \<open>Compound growth over four entries\<close>

lemma dropna_present: "dropna r = map Some (map the (dropna r))"
  by (induction r) (auto simp: dropna_def)

lemma cagr4_taken:
  assumes "rows fin metric = Some r" and "dropna r = map Some xs"
  shows "cagr4 fin metric =
    (if 1 < length (take 4 xs) \<and> last (take 4 xs) \<noteq> 0
     then and_then (pow_inv (Num (hd (take 4 xs) / last (take 4 xs))) (length (take 4 xs) - 1))
            (\<lambda>p. py_sub p (Num 1))
     else Inr PyNone)"
proof -
  have v: "take 4 (dropna r) = map Some (take 4 xs)"
    using assms(2) by (simp add: take_map)
  show ?thesis
  proof (cases "take 4 xs = []")
    case True
    with assms(1) v show ?thesis by (simp add: cagr4_def Let_def)
  next
    case False
    with assms(1) v show ?thesis
      by (simp add: cagr4_def Let_def last_map hd_map and_then_def)
  qed
qed

lemma cagr4_present:
  assumes "rows fin metric = Some r" and "dropna r = map Some xs"
  shows "cagr4 fin metric =
    (if 1 < min 4 (length xs) \<and> xs ! (min 4 (length xs) - 1) \<noteq> 0
     then and_then (pow_inv (Num (xs ! 0 / xs ! (min 4 (length xs) - 1))) (min 4 (length xs) - 1))
            (\<lambda>p. py_sub p (Num 1))
     else Inr PyNone)"
proof (cases "xs = []")
  case True
  with cagr4_taken [OF assms] show ?thesis by simp
next
  case False
  then have h: "hd (take 4 xs) = xs ! 0"
    by (cases xs) simp_all
  from False have l: "last (take 4 xs) = xs ! (min 4 (length xs) - 1)"
    by (simp add: last_conv_nth min.commute)
  have n: "length (take 4 xs) = min 4 (length xs)"
    by (simp add: min.commute)
  show ?thesis
    unfolding cagr4_taken [OF assms] h l n ..
qed

lemma pow_inv_pos: "0 < k \<Longrightarrow> pow_inv (Num x) k =
     Inr (if k = 1 then Num x else if x < 0 then NaN else Num (x powr (1 / real k)))"
  by (cases k) simp_all

text \<open>
  Claim C2 says that only the four most recent periods are looked at. The row below has
  one value among its four most recent periods and a second one in the fifth; the
  claim makes the growth unavailable, the code returns 0.25.
\<close>

theorem cagr4_fifth_period_counterexample:
  "cagr4 \<lparr>columns = [''2024'', ''2023'', ''2022'', ''2021'', ''2020''],
          rows = [''Total Revenue'' \<mapsto> [Some 100, None, None, None, Some 80]]\<rparr>
      ''Total Revenue'' = Inr (Num (1 / 4)) \<and>
   length (dropna (take 4 [Some 100, None, None, None, Some (80::real)])) = 1"
  by (simp add: cagr4_def dropna_def and_then_def)

text \<open>
  Claim C2, amended. \<^verbatim>\<open>cagr4\<close> drops the missing entries of the whole row first and then
  takes the up to four most recent values that are left: \<open>xs\<close> are the values present,
  most recent first, and \<open>n = min 4 (length xs)\<close> of them are used. The growth is
  unavailable when the row is absent, when \<open>n < 2\<close>, or when the last value used is
  zero. Otherwise it is \<open>(first / last) ** (1 / (n - 1)) - 1\<close> with the most recent
  value as \<open>first\<close> and the \<open>n\<close>-th as \<open>last\<close>: the quotient itself minus 1 for \<open>n = 2\<close>,
  the real power for a quotient that is not negative, and \<^verbatim>\<open>nan\<close> for a negative
  quotient under a fractional exponent. The row \<open>[100, 80]\<close> gives 0.25.
\<close>

theorem cagr4_four_most_recent_present:
  "(rows fin metric = None \<longrightarrow> cagr4 fin metric = Inr PyNone) \<and>
   (rows fin metric = Some r \<longrightarrow>
      (let xs = map the (dropna r); n = min 4 (length xs); q = xs ! 0 / xs ! (n - 1) in
        (n < 2 \<or> xs ! (n - 1) = 0 \<longrightarrow> cagr4 fin metric = Inr PyNone) \<and>
        (n = 2 \<and> xs ! 1 \<noteq> 0 \<longrightarrow> cagr4 fin metric = Inr (Num (q - 1))) \<and>
        (2 < n \<and> xs ! (n - 1) \<noteq> 0 \<and> 0 \<le> q \<longrightarrow>
           cagr4 fin metric = Inr (Num (q powr (1 / real (n - 1)) - 1))) \<and>
        (2 < n \<and> xs ! (n - 1) \<noteq> 0 \<and> q < 0 \<longrightarrow> cagr4 fin metric = Inr NaN))) \<and>
   (rows fin metric = Some [Some 100, Some 80] \<longrightarrow> cagr4 fin metric = Inr (Num (1 / 4)))"
proof (intro conjI impI)
  assume "rows fin metric = None"
  then show "cagr4 fin metric = Inr PyNone" by (simp add: cagr4_def)
next
  assume r: "rows fin metric = Some r"
  define xs where "xs = map the (dropna r)"
  define n where "n = min 4 (length xs)"
  have d: "dropna r = map Some xs" unfolding xs_def by (rule dropna_present)
  note eq = cagr4_present [OF r d, folded n_def]
  have a: "n < 2 \<or> xs ! (n - 1) = 0 \<Longrightarrow> cagr4 fin metric = Inr PyNone"
    using eq by auto
  have b: "n = 2 \<and> xs ! 1 \<noteq> 0 \<Longrightarrow> cagr4 fin metric = Inr (Num (xs ! 0 / xs ! (n - 1) - 1))"
    using eq by (simp add: and_then_def)
  have c: "2 < n \<and> xs ! (n - 1) \<noteq> 0 \<and> 0 \<le> xs ! 0 / xs ! (n - 1) \<Longrightarrow>
      cagr4 fin metric = Inr (Num ((xs ! 0 / xs ! (n - 1)) powr (1 / real (n - 1)) - 1))"
    using eq by (auto simp: and_then_def pow_inv_pos)
  have e: "2 < n \<and> xs ! (n - 1) \<noteq> 0 \<and> xs ! 0 / xs ! (n - 1) < 0 \<Longrightarrow>
      cagr4 fin metric = Inr NaN"
    using eq by (auto simp: and_then_def pow_inv_pos)
  show "let xs = map the (dropna r); n = min 4 (length xs); q = xs ! 0 / xs ! (n - 1) in
        (n < 2 \<or> xs ! (n - 1) = 0 \<longrightarrow> cagr4 fin metric = Inr PyNone) \<and>
        (n = 2 \<and> xs ! 1 \<noteq> 0 \<longrightarrow> cagr4 fin metric = Inr (Num (q - 1))) \<and>
        (2 < n \<and> xs ! (n - 1) \<noteq> 0 \<and> 0 \<le> q \<longrightarrow>
           cagr4 fin metric = Inr (Num (q powr (1 / real (n - 1)) - 1))) \<and>
        (2 < n \<and> xs ! (n - 1) \<noteq> 0 \<and> q < 0 \<longrightarrow> cagr4 fin metric = Inr NaN)"
    unfolding Let_def xs_def [symmetric] n_def [symmetric]
    using a b c e by blast
next
  assume "rows fin metric = Some [Some 100, Some 80]"
  then show "cagr4 fin metric = Inr (Num (1 / 4))"
    by (simp add: cagr4_def dropna_def and_then_def)
qed

theorem cagr4_four_most_recent_present_witness:
  "cagr4 \<lparr>columns = [''2024'', ''2023'', ''2022'', ''2021'', ''2020'', ''2019''],
          rows = [''Total Revenue'' \<mapsto> [Some 100, None, None, None, Some 80, None],
                  ''Net Income'' \<mapsto> [Some 8, None, Some 4, Some 2, Some 1, Some 16]]\<rparr>
      ''Total Revenue'' = Inr (Num (1 / 4)) \<and>
   cagr4 \<lparr>columns = [''2024'', ''2023'', ''2022'', ''2021'', ''2020'', ''2019''],
          rows = [''Total Revenue'' \<mapsto> [Some 100, None, None, None, Some 80, None],
                  ''Net Income'' \<mapsto> [Some 8, None, Some 4, Some 2, Some 1, Some 16]]\<rparr>
      ''Net Income'' = Inr (Num (8 powr (1 / 3) - 1)) \<and>
   cagr4 \<lparr>columns = [''2024'', ''2023'', ''2022'', ''2021'', ''2020'', ''2019''],
          rows = [''Total Revenue'' \<mapsto> [Some 100, None, None, None, Some 80, None],
                  ''Net Income'' \<mapsto> [Some 8, None, Some 4, Some 2, Some 1, Some 16]]\<rparr>
      ''Free Cash Flow'' = Inr PyNone \<and>
   cagr4 \<lparr>columns = [''2024'', ''2023'', ''2022''],
          rows = [''Net Income'' \<mapsto> [Some (- 8), Some 3, Some 1]]\<rparr>
      ''Net Income'' = Inr NaN \<and>
   cagr4 \<lparr>columns = [''2024'', ''2023'', ''2022''],
          rows = [''Net Income'' \<mapsto> [Some 5, None, Some 0]]\<rparr>
      ''Net Income'' = Inr PyNone \<and>
   cagr4 \<lparr>columns = [''2024'', ''2023''], rows = [''Net Income'' \<mapsto> [Some 100, Some 80]]\<rparr>
      ''Net Income'' = Inr (Num (1 / 4))"
  using
    cagr4_four_most_recent_present
      [of "\<lparr>columns = [''2024'', ''2023'', ''2022'', ''2021'', ''2020'', ''2019''],
          rows = [''Total Revenue'' \<mapsto> [Some 100, None, None, None, Some 80, None],
                  ''Net Income'' \<mapsto> [Some 8, None, Some 4, Some 2, Some 1, Some 16]]\<rparr>"
          "''Total Revenue''" "[Some 100, None, None, None, Some 80, None]"]
    cagr4_four_most_recent_present
      [of "\<lparr>columns = [''2024'', ''2023'', ''2022'', ''2021'', ''2020'', ''2019''],
          rows = [''Total Revenue'' \<mapsto> [Some 100, None, None, None, Some 80, None],
                  ''Net Income'' \<mapsto> [Some 8, None, Some 4, Some 2, Some 1, Some 16]]\<rparr>"
          "''Net Income''" "[Some 8, None, Some 4, Some 2, Some 1, Some 16]"]
    cagr4_four_most_recent_present
      [of "\<lparr>columns = [''2024'', ''2023'', ''2022'', ''2021'', ''2020'', ''2019''],
          rows = [''Total Revenue'' \<mapsto> [Some 100, None, None, None, Some 80, None],
                  ''Net Income'' \<mapsto> [Some 8, None, Some 4, Some 2, Some 1, Some 16]]\<rparr>"
          "''Free Cash Flow''" "[]"]
    cagr4_four_most_recent_present
      [of "\<lparr>columns = [''2024'', ''2023'', ''2022''],
          rows = [''Net Income'' \<mapsto> [Some (- 8), Some 3, Some 1]]\<rparr>"
          "''Net Income''" "[Some (- 8), Some 3, Some 1]"]
    cagr4_four_most_recent_present
      [of "\<lparr>columns = [''2024'', ''2023'', ''2022''],
          rows = [''Net Income'' \<mapsto> [Some 5, None, Some 0]]\<rparr>"
          "''Net Income''" "[Some 5, None, Some 0]"]
    cagr4_four_most_recent_present
      [of "\<lparr>columns = [''2024'', ''2023''], rows = [''Net Income'' \<mapsto> [Some 100, Some 80]]\<rparr>"
          "''Net Income''" "[Some 100, Some 80]"]
  by (simp add: dropna_def)

section \<open>The sorted portfolio\<close>

lemma sort_values_sorted:
  "sorted (map (\<lambda>c. (SectorRank c, Sector c, Ticker c)) (sort_values df))"
  by (simp add: sort_values_def)

lemma sort_values_pairs:
  assumes "i < j" and "j < length (sort_values df)"
  shows "(SectorRank (sort_values df ! i), Sector (sort_values df ! i), Ticker (sort_values df ! i))
       \<le> (SectorRank (sort_values df ! j), Sector (sort_values df ! j), Ticker (sort_values df ! j))"
proof -
  let ?k = "\<lambda>c. (SectorRank c, Sector c, Ticker c)"
  have "map ?k (sort_values df) ! i \<le> map ?k (sort_values df) ! j"
    using sort_values_sorted [of df] assms by (simp add: sorted_iff_nth_mono)
  with assms show ?thesis by simp
qed

lemma rank_named:
  "Sector c = ''Technology'' \<Longrightarrow> SectorRank c = 4"
  "Sector c = ''Energy'' \<Longrightarrow> SectorRank c = 8"
  "Sector c = ''Unknown'' \<Longrightarrow> SectorRank c = 99"
  by (simp_all add: SECTOR_RANK_def SectorRank_def)

lemma rank_listed:
  "(s, r) \<in> set SECTOR_RANK \<Longrightarrow> Sector c = s \<Longrightarrow> SectorRank c = r"
  by (auto simp: SECTOR_RANK_def SectorRank_def)

lemma rank_listed_bound:
  "(s, r) \<in> set SECTOR_RANK \<Longrightarrow> s \<noteq> ''Unknown'' \<Longrightarrow> r < 99"
  by (auto simp: SECTOR_RANK_def)

lemma rank_unlisted:
  "Sector c \<notin> fst ` set SECTOR_RANK \<Longrightarrow> SectorRank c = 99"
  by (simp add: SectorRank_def map_of_eq_None_iff [THEN iffD2])

lemma rank_unlisted_last:
  assumes "Sector c \<notin> fst ` set SECTOR_RANK" and "Sector c' \<in> fst ` set SECTOR_RANK"
    and "Sector c' \<noteq> ''Unknown''"
  shows "SectorRank c' < SectorRank c"
proof -
  from assms(2) obtain r where r: "(Sector c', r) \<in> set SECTOR_RANK" by auto
  then have "SectorRank c' = r" by (rule rank_listed) simp
  moreover from r assms(3) have "r < 99" by (rule rank_listed_bound)
  ultimately show ?thesis using rank_unlisted [OF assms(1)] by simp
qed

text \<open>
  Claim C9. The sorted collection holds the same records as the input, ascending by
  sector rank, then by sector name, then by ticker. The rank is read from the fixed
  table: Technology 4, Energy 8, Unknown 99; a sector that is not a key of the table
  gets 99, above the rank of every sector the table names apart from \<open>Unknown\<close>
  itself. So no Energy or Unknown record precedes a Technology record, no Unknown
  record precedes an Energy record, and records of one sector are in ticker order.
\<close>

theorem sort_values_sector_order:
  "mset (sort_values df) = mset df \<and>
   (\<forall>i j. i < j \<and> j < length (sort_values df) \<longrightarrow>
      (let a = sort_values df ! i; b = sort_values df ! j in
        SectorRank a \<le> SectorRank b \<and>
        (SectorRank a = SectorRank b \<longrightarrow> Sector a \<le> Sector b) \<and>
        (Sector a = Sector b \<longrightarrow> Ticker a \<le> Ticker b) \<and>
        (Sector b = ''Technology'' \<longrightarrow> Sector a \<noteq> ''Energy'' \<and> Sector a \<noteq> ''Unknown'') \<and>
        (Sector b = ''Energy'' \<longrightarrow> Sector a \<noteq> ''Unknown''))) \<and>
   (\<forall>c. (Sector c = ''Technology'' \<longrightarrow> SectorRank c = 4) \<and>
        (Sector c = ''Energy'' \<longrightarrow> SectorRank c = 8) \<and>
        (Sector c = ''Unknown'' \<longrightarrow> SectorRank c = 99)) \<and>
   (\<forall>c c'. Sector c \<notin> fst ` set SECTOR_RANK \<and> Sector c' \<in> fst ` set SECTOR_RANK \<and>
        Sector c' \<noteq> ''Unknown'' \<longrightarrow> SectorRank c = 99 \<and> SectorRank c' < SectorRank c)"
proof (intro conjI allI impI)
  show "mset (sort_values df) = mset df" by (simp add: sort_values_def)
next
  fix i j
  assume ij: "i < j \<and> j < length (sort_values df)"
  define a where "a = sort_values df ! i"
  define b where "b = sort_values df ! j"
  have le: "(SectorRank a, Sector a, Ticker a) \<le> (SectorRank b, Sector b, Ticker b)"
    unfolding a_def b_def using ij by (intro sort_values_pairs) simp_all
  have 1: "SectorRank a \<le> SectorRank b"
    using le by (auto simp: less_eq_prod_def)
  have 2: "SectorRank a = SectorRank b \<Longrightarrow> Sector a \<le> Sector b"
    using le by (auto simp: less_eq_prod_def)
  have 3: "Sector a = Sector b \<Longrightarrow> Ticker a \<le> Ticker b"
    using le by (auto simp: less_eq_prod_def SectorRank_def)
  have 4: "Sector b = ''Technology'' \<Longrightarrow> Sector a \<noteq> ''Energy'' \<and> Sector a \<noteq> ''Unknown''"
    using 1 rank_named(1) [of b] rank_named(2) [of a] rank_named(3) [of a] by auto
  have 5: "Sector b = ''Energy'' \<Longrightarrow> Sector a \<noteq> ''Unknown''"
    using 1 rank_named(2) [of b] rank_named(3) [of a] by auto
  show "let a = sort_values df ! i; b = sort_values df ! j in
        SectorRank a \<le> SectorRank b \<and>
        (SectorRank a = SectorRank b \<longrightarrow> Sector a \<le> Sector b) \<and>
        (Sector a = Sector b \<longrightarrow> Ticker a \<le> Ticker b) \<and>
        (Sector b = ''Technology'' \<longrightarrow> Sector a \<noteq> ''Energy'' \<and> Sector a \<noteq> ''Unknown'') \<and>
        (Sector b = ''Energy'' \<longrightarrow> Sector a \<noteq> ''Unknown'')"
    unfolding Let_def a_def [symmetric] b_def [symmetric]
    using 1 2 3 4 5 by blast
next
  fix c c' :: company
  assume h: "Sector c \<notin> fst ` set SECTOR_RANK \<and> Sector c' \<in> fst ` set SECTOR_RANK \<and>
        Sector c' \<noteq> ''Unknown''"
  from h show "SectorRank c = 99" by (simp add: rank_unlisted)
  from h show "SectorRank c' < SectorRank c" by (simp add: rank_unlisted_last)
qed (simp_all add: rank_named)

theorem sort_values_sector_order_witness:
  "map Ticker (sort_values
     [\<lparr>Ticker = ''XOM'', Sector = ''Energy'', WACC = PyNone, ROIC = PyNone, Creacion_Valor = PyNone\<rparr>,
      \<lparr>Ticker = ''ZZZ'', Sector = ''Unknown'', WACC = PyNone, ROIC = PyNone, Creacion_Valor = PyNone\<rparr>,
      \<lparr>Ticker = ''MSFT'', Sector = ''Technology'', WACC = PyNone, ROIC = PyNone, Creacion_Valor = PyNone\<rparr>,
      \<lparr>Ticker = ''AAPL'', Sector = ''Technology'', WACC = PyNone, ROIC = PyNone, Creacion_Valor = PyNone\<rparr>])
     = [''AAPL'', ''MSFT'', ''XOM'', ''ZZZ''] \<and>
   (0::nat) < 1 \<and>
   1 < length (sort_values
     [\<lparr>Ticker = ''XOM'', Sector = ''Energy'', WACC = PyNone, ROIC = PyNone, Creacion_Valor = PyNone\<rparr>,
      \<lparr>Ticker = ''ZZZ'', Sector = ''Unknown'', WACC = PyNone, ROIC = PyNone, Creacion_Valor = PyNone\<rparr>,
      \<lparr>Ticker = ''MSFT'', Sector = ''Technology'', WACC = PyNone, ROIC = PyNone, Creacion_Valor = PyNone\<rparr>,
      \<lparr>Ticker = ''AAPL'', Sector = ''Technology'', WACC = PyNone, ROIC = PyNone, Creacion_Valor = PyNone\<rparr>])"
  using sort_values_sector_order
     [of "[\<lparr>Ticker = ''XOM'', Sector = ''Energy'', WACC = PyNone, ROIC = PyNone, Creacion_Valor = PyNone\<rparr>,
      \<lparr>Ticker = ''ZZZ'', Sector = ''Unknown'', WACC = PyNone, ROIC = PyNone, Creacion_Valor = PyNone\<rparr>,
      \<lparr>Ticker = ''MSFT'', Sector = ''Technology'', WACC = PyNone, ROIC = PyNone, Creacion_Valor = PyNone\<rparr>,
      \<lparr>Ticker = ''AAPL'', Sector = ''Technology'', WACC = PyNone, ROIC = PyNone, Creacion_Valor = PyNone\<rparr>]"]
  by (simp add: sort_values_def SectorRank_def SECTOR_RANK_def)


section \<open>The batch loop\<close>

lemma creacion_valor_total: "\<exists>v. creacion_valor roic wacc = Inr v"
  by (cases roic; cases wacc) (simp_all add: creacion_valor_def and_then_def)

lemma obtener_datos_financieros_never_raises:
  "\<exists>data msgs. obtener_datos_financieros derive tk = Inr (data, msgs)"
  by (simp add: obtener_datos_financieros_def split: sum.split)

lemma obtener_datos_financieros_failure:
  "derive tk = Inl e \<Longrightarrow> obtener_datos_financieros derive tk = Inr (None, [(tk, e)])"
  by (simp add: obtener_datos_financieros_def and_then_def)

lemma obtener_datos_financieros_success:
  assumes "derive tk = Inr (sector, wacc, roic)"
  shows "\<exists>d. obtener_datos_financieros derive tk = Inr (Some d, []) \<and> Ticker d = tk"
proof -
  obtain v where "creacion_valor roic wacc = Inr v"
    using creacion_valor_total by blast
  with assms show ?thesis
    by (simp add: obtener_datos_financieros_def and_then_def)
qed

lemma main_step_errs: "errs (main_step derive st tk) = errs st"
  using obtener_datos_financieros_never_raises [of derive tk]
  by (auto simp: main_step_def)

lemma foldl_main_step_errs: "errs (foldl (main_step derive) st tickers) = errs st"
  by (induction tickers arbitrary: st) (simp_all add: main_step_errs)

lemma main_loop_errs_empty: "errs (main_loop derive tickers) = []"
  by (simp add: main_loop_def foldl_main_step_errs)

lemma main_step_tickers:
  "map Ticker (datos (main_step derive st tk)) =
     map Ticker (datos st) @ (case derive tk of Inl e \<Rightarrow> [] | Inr r \<Rightarrow> [tk])"
proof (cases "derive tk")
  case (Inl e)
  then show ?thesis
    by (simp add: main_step_def obtener_datos_financieros_failure)
next
  case (Inr r)
  obtain sector wacc roic where "r = (sector, wacc, roic)"
    using prod_cases3 by blast
  with Inr obtain d where "obtener_datos_financieros derive tk = Inr (Some d, [])" "Ticker d = tk"
    using obtener_datos_financieros_success by blast
  with Inr show ?thesis by (simp add: main_step_def)
qed

lemma foldl_main_step_tickers:
  "map Ticker (datos (foldl (main_step derive) st tickers)) =
     map Ticker (datos st) @ filter (\<lambda>tk. \<exists>r. derive tk = Inr r) tickers"
proof (induction tickers arbitrary: st)
  case Nil
  show ?case by simp
next
  case (Cons tk tickers)
  show ?case
    by (cases "derive tk") (auto simp: Cons.IH main_step_tickers)
qed

lemma main_loop_tickers:
  "map Ticker (datos (main_loop derive tickers)) = filter (\<lambda>tk. \<exists>r. derive tk = Inr r) tickers"
  by (simp add: main_loop_def foldl_main_step_tickers)

text \<open>
  Claim C3 asks for exactly one entry in the recorded error list for a ticker whose
  build fails. With a batch of a failing ticker and a good one, the good ticker is
  still processed and the failing one yields no record, but \<^verbatim>\<open>errs\<close> stays empty: the
  handler inside \<^verbatim>\<open>obtener_datos_financieros\<close> has already turned the exception into a
  displayed message and the value \<^verbatim>\<open>None\<close>, so the handler of the loop is never entered.
\<close>

theorem main_loop_failed_ticker_not_recorded:
  "main_loop (\<lambda>tk. if tk = ''BAD'' then Inl ValueError
                   else Inr (''Technology'', Num (1 / 10), Num (3 / 20))) [''BAD'', ''AAPL'']
     = \<lparr>datos = [\<lparr>Ticker = ''AAPL'', Sector = ''Technology'', WACC = Num (1 / 10),
                   ROIC = Num (3 / 20), Creacion_Valor = Num 5\<rparr>],
        errs = [],
        shown = [(''BAD'', ValueError)]\<rparr> \<and>
   main (\<lambda>tk. if tk = ''BAD'' then Inl ValueError
              else Inr (''Technology'', Num (1 / 10), Num (3 / 20))) [''BAD'', ''AAPL'']
     = Portfolio [\<lparr>Ticker = ''AAPL'', Sector = ''Technology'', WACC = Num (1 / 10),
                    ROIC = Num (3 / 20), Creacion_Valor = Num 5\<rparr>] []"
  by (simp add: main_def sort_values_def main_loop_def main_step_def
      obtener_datos_financieros_def and_then_def creacion_valor_def)

end
